theory Spec2Isabelle
  imports Complex_Main "HOL-Library.Word"
begin

section \<open>CNC press brake simulator: the validation and execution engine\<close>

text \<open>
  The development embeds the engine part of \<^verbatim>\<open>cnc_press_brake_simulator.go\<close>
  (the single-file program, version v0.3.0, lines 34 to 352) and the add-bend handler
  of its \<^verbatim>\<open>AppController\<close> (lines 969 to 1015 and 1070 to 1076). The file
  carries, from line 1131 on, a setup script that writes the same program split into
  packages (version v0.4.0); line numbers below are those of the first program unless
  said otherwise.

  Conventions of the embedding.
  \<^item> A \<^verbatim>\<open>float64\<close> is a \<open>real\<close>: the finite values, with the exact order the
    comparisons of the code decide. NaN and the infinities are outside the model.
  \<^item> The counter \<^verbatim>\<open>totalPartsBentSession\<close>, a Go \<^verbatim>\<open>int\<close>, is a \<open>64 word\<close> read as
    two's complement by \<open>sint\<close>: \<^verbatim>\<open>++\<close> wraps from \<open>2 ^ 63 - 1\<close> to
    \<open>- (2 ^ 63)\<close>. The other integer of the engine, \<^verbatim>\<open>SequenceOrder\<close>, is the length
    of a slice plus one, which memory bounds far below \<open>2 ^ 63\<close>; it is an \<open>int\<close>.
  \<^item> A nullable pointer to a struct that has one owner (\<^verbatim>\<open>*Job\<close>, \<^verbatim>\<open>*SheetMetal\<close>,
    \<^verbatim>\<open>*Punch\<close>, \<^verbatim>\<open>*Die\<close>, \<^verbatim>\<open>*JobController\<close>) is an \<open>option\<close>, \<open>None\<close> for nil.
  \<^item> The elements of \<^verbatim>\<open>Job.Steps\<close> are pointers (\<^verbatim>\<open>[]*BendStep\<close>) while those of
    \<^verbatim>\<open>SheetMetal.CurrentBends\<close> are values (\<^verbatim>\<open>[]BendStep\<close>). The bend steps a job
    points to therefore live in an explicit store, and \<open>Steps\<close> is a list of addresses.
  \<^item> An error value of Go is a constructor of the datatype \<open>error\<close>, carrying the
    numbers its message prints. Logging is left out.
\<close>

subsection \<open>Constants (lines 35 to 44)\<close>

definition minBendRadius :: real where
  "minBendRadius = 0.0"

definition maxBendRadius :: real where
  "maxBendRadius = 500.0"

definition minBendAngle :: real where
  "minBendAngle = 1.0"

definition maxBendAngle :: real where
  "maxBendAngle = 179.0"

subsection \<open>Data model (lines 51 to 80, 153 to 167, 218 to 240, 253 to 256, 303 to 309)\<close>

type_synonym MaterialName = string

record MaterialDetails =
  Material_Name :: MaterialName
  Density :: real
  YieldStress :: real
  TensileModulus :: real
  MinBendRadiusFactor :: real

type_synonym BendDirection = string

definition BendDirectionUp :: BendDirection where
  "BendDirectionUp = ''Up''"

definition BendDirectionDown :: BendDirection where
  "BendDirectionDown = ''Down''"

record BendStep =
  SequenceOrder :: int
  Position :: real
  TargetAngle :: real
  Radius :: real
  Direction :: BendDirection

record SheetMetal =
  ID :: string
  OriginalLength :: real
  Thickness :: real
  Width :: real
  Material :: MaterialDetails
  CurrentBends :: "BendStep list"

record Punch =
  Punch_Name :: string
  Height :: real
  Punch_Angle :: real
  Punch_Radius :: real

record Die =
  Die_Name :: string
  VOpening :: real
  Die_Angle :: real
  ShoulderRadius :: real

text \<open>
  The store of the \<^verbatim>\<open>BendStep\<close> objects allocated by \<^verbatim>\<open>&BendStep{...}\<close>: \<open>cell\<close>
  gives the object at an address and \<open>next_free\<close> is the first address not yet
  allocated. Go never frees an object that is still referenced, so allocation only
  moves \<open>next_free\<close> up. Every pointer the program puts into \<^verbatim>\<open>Job.Steps\<close> comes from
  such an allocation, so a nil element is not a value of the list in this model.
\<close>

type_synonym addr = nat

record store =
  cell :: "addr \<Rightarrow> BendStep"
  next_free :: addr

definition new_BendStep :: "BendStep \<Rightarrow> store \<Rightarrow> addr \<times> store" where
  "new_BendStep v h =
     (next_free h, h\<lparr>cell := (cell h)(next_free h := v), next_free := Suc (next_free h)\<rparr>)"

record Job =
  Job_Name :: string
  Sheet :: "SheetMetal option"
  Steps :: "addr list"

record JobController =
  currentJob :: "Job option"

record PressBrake =
  PressBrake_Name :: string
  currentPunch :: "Punch option"
  currentDie :: "Die option"
  totalPartsBentSession :: "64 word"

datatype error =
    SheetDimensionsNotPositive real real real
  | MaterialNotSpecified
  | SheetIDEmpty
  | JobNameEmpty
  | JobSheetNil
  | NoCurrentJobSelected
  | CurrentJobHasNoSheet
  | BendPositionOutsideSheet real real
  | BendRadiusOutsideRange real
  | BendAngleOutsideRange real
  | NoCurrentJobToClear
  | JobOrSheetNil
  | ToolingNotSet
  | NilPointerDereference

subsection \<open>Sheet metal (lines 84 to 116)\<close>

definition NewSheetMetal ::
  "string \<Rightarrow> real \<Rightarrow> real \<Rightarrow> real \<Rightarrow> MaterialDetails \<Rightarrow> error + SheetMetal" where
  "NewSheetMetal id' length' width thickness material =
     (if length' \<le> 0 \<or> width \<le> 0 \<or> thickness \<le> 0
      then Inl (SheetDimensionsNotPositive length' width thickness)
      else if Material_Name material = ''''
      then Inl MaterialNotSpecified
      else Inr \<lparr>ID = id', OriginalLength = length', Thickness = thickness, Width = width,
                Material = material, CurrentBends = []\<rparr>)"

text \<open>
  The same constructor as the setup script writes it (\<^verbatim>\<open>internal/models/models.go\<close>,
  lines 1280 to 1297): it tests the id first.
\<close>

definition NewSheetMetal_models ::
  "string \<Rightarrow> real \<Rightarrow> real \<Rightarrow> real \<Rightarrow> MaterialDetails \<Rightarrow> error + SheetMetal" where
  "NewSheetMetal_models id' length' width thickness material =
     (if id' = ''''
      then Inl SheetIDEmpty
      else if length' \<le> 0 \<or> width \<le> 0 \<or> thickness \<le> 0
      then Inl (SheetDimensionsNotPositive length' width thickness)
      else if Material_Name material = ''''
      then Inl MaterialNotSpecified
      else Inr \<lparr>ID = id', OriginalLength = length', Thickness = thickness, Width = width,
                Material = material, CurrentBends = []\<rparr>)"

definition ResetForm :: "SheetMetal \<Rightarrow> SheetMetal" where
  "ResetForm s = s\<lparr>CurrentBends := []\<rparr>"

definition GetMinBendRadius :: "SheetMetal \<Rightarrow> real" where
  "GetMinBendRadius s =
     (if Thickness s \<le> 0 then 0
      else if MinBendRadiusFactor (Material s) \<le> 0 then Thickness s * 0.5
      else Thickness s * MinBendRadiusFactor (Material s))"

text \<open>The entry for steel of the table \<^verbatim>\<open>defaultMaterials\<close> (line 121).\<close>

definition SteelMaterial :: MaterialDetails where
  "SteelMaterial = \<lparr>Material_Name = ''Steel'', Density = 7850, YieldStress = 250,
                     TensileModulus = 200, MinBendRadiusFactor = 1.5\<rparr>"

subsection \<open>Job and job controller (lines 243 to 301)\<close>

definition NewJob :: "string \<Rightarrow> SheetMetal option \<Rightarrow> error + Job" where
  "NewJob name sheet =
     (if name = '''' then Inl JobNameEmpty
      else case sheet of
             None \<Rightarrow> Inl JobSheetNil
           | Some s \<Rightarrow> Inr \<lparr>Job_Name = name, Sheet = Some s, Steps = []\<rparr>)"

definition NewJobController :: JobController where
  "NewJobController = \<lparr>currentJob = None\<rparr>"

definition SetCurrentJob :: "JobController \<Rightarrow> Job option \<Rightarrow> JobController" where
  "SetCurrentJob jc job = jc\<lparr>currentJob := job\<rparr>"

text \<open>
  \<^verbatim>\<open>AddBendStepToCurrentJob\<close> returns the pointer to the new step, or an error; the
  model returns with it the controller and the store as the call leaves them.
\<close>

definition AddBendStepToCurrentJob ::
  "JobController \<Rightarrow> real \<Rightarrow> real \<Rightarrow> real \<Rightarrow> BendDirection \<Rightarrow> store
     \<Rightarrow> (error + addr) \<times> JobController \<times> store" where
  "AddBendStepToCurrentJob jc pos angle radius dir h =
     (case currentJob jc of
        None \<Rightarrow> (Inl NoCurrentJobSelected, jc, h)
      | Some j \<Rightarrow>
          (case Sheet j of
             None \<Rightarrow> (Inl CurrentJobHasNoSheet, jc, h)
           | Some s \<Rightarrow>
               if pos \<le> 0 \<or> pos \<ge> OriginalLength s
               then (Inl (BendPositionOutsideSheet pos (OriginalLength s)), jc, h)
               else if radius < minBendRadius \<or> radius > maxBendRadius
               then (Inl (BendRadiusOutsideRange radius), jc, h)
               else if angle < minBendAngle \<or> angle > maxBendAngle
               then (Inl (BendAngleOutsideRange angle), jc, h)
               else
                 (case new_BendStep
                         \<lparr>SequenceOrder = int (length (Steps j)) + 1, Position = pos,
                          TargetAngle = angle, Radius = radius, Direction = dir\<rparr> h of
                    (step, h') \<Rightarrow>
                      (Inr step, jc\<lparr>currentJob := Some (j\<lparr>Steps := Steps j @ [step]\<rparr>)\<rparr>, h'))))"

definition ClearBendStepsFromCurrentJob :: "JobController \<Rightarrow> error option \<times> JobController" where
  "ClearBendStepsFromCurrentJob jc =
     (case currentJob jc of
        None \<Rightarrow> (Some NoCurrentJobToClear, jc)
      | Some j \<Rightarrow>
          (None, jc\<lparr>currentJob := Some (j\<lparr>Steps := [], Sheet := map_option ResetForm (Sheet j)\<rparr>)\<rparr>))"

subsection \<open>Press brake (lines 311 to 352)\<close>

definition NewPressBrake :: "string \<Rightarrow> Punch option \<Rightarrow> Die option \<Rightarrow> PressBrake" where
  "NewPressBrake name punch die =
     \<lparr>PressBrake_Name = name, currentPunch = punch, currentDie = die, totalPartsBentSession = 0\<rparr>"

text \<open>
  \<^verbatim>\<open>SetPunch\<close> and \<^verbatim>\<open>SetDie\<close> store the pointer and then print the tool's name: with
  a nil tool the print panics, after the assignment.
\<close>

definition SetPunch :: "PressBrake \<Rightarrow> Punch option \<Rightarrow> error option \<times> PressBrake" where
  "SetPunch pb p =
     (case p of
        None \<Rightarrow> (Some NilPointerDereference, pb\<lparr>currentPunch := None\<rparr>)
      | Some _ \<Rightarrow> (None, pb\<lparr>currentPunch := p\<rparr>))"

definition SetDie :: "PressBrake \<Rightarrow> Die option \<Rightarrow> error option \<times> PressBrake" where
  "SetDie pb d =
     (case d of
        None \<Rightarrow> (Some NilPointerDereference, pb\<lparr>currentDie := None\<rparr>)
      | Some _ \<Rightarrow> (None, pb\<lparr>currentDie := d\<rparr>))"

text \<open>
  The loop of \<^verbatim>\<open>ProcessJob\<close> (lines 336 to 346): each pointer of \<^verbatim>\<open>j.Steps\<close> is
  dereferenced and the value appended to \<^verbatim>\<open>j.Sheet.CurrentBends\<close>. The store is read,
  never written.
\<close>

fun apply_steps :: "store \<Rightarrow> addr list \<Rightarrow> SheetMetal \<Rightarrow> SheetMetal" where
  "apply_steps h [] s = s"
| "apply_steps h (step # steps) s =
     apply_steps h steps (s\<lparr>CurrentBends := CurrentBends s @ [cell h step]\<rparr>)"

text \<open>
  \<^verbatim>\<open>ProcessJob\<close> returns the sheet or an error; the model returns with it the press
  brake and the job as the call leaves them.
\<close>

definition ProcessJob ::
  "PressBrake \<Rightarrow> Job option \<Rightarrow> store \<Rightarrow> (error + SheetMetal) \<times> PressBrake \<times> Job option" where
  "ProcessJob pb j h =
     (case j of
        None \<Rightarrow> (Inl JobOrSheetNil, pb, j)
      | Some job \<Rightarrow>
          (case Sheet job of
             None \<Rightarrow> (Inl JobOrSheetNil, pb, j)
           | Some s \<Rightarrow>
               if currentPunch pb = None \<or> currentDie pb = None
               then (Inl ToolingNotSet, pb, j)
               else
                 let s' = apply_steps h (Steps job) (ResetForm s)
                 in (Inr s',
                     pb\<lparr>totalPartsBentSession := totalPartsBentSession pb + 1\<rparr>,
                     Some (job\<lparr>Sheet := Some s'\<rparr>))))"


subsection \<open>Sequences of operations\<close>

text \<open>
  The operations a caller has on a press brake, and the state a sequence of them
  leaves. After a nil tool the state is the one at the panic.
\<close>

datatype pb_op =
    OpSetPunch "Punch option"
  | OpSetDie "Die option"
  | OpProcessJob "Job option" store

fun pb_step :: "PressBrake \<Rightarrow> pb_op \<Rightarrow> PressBrake" where
  "pb_step pb (OpSetPunch p) = snd (SetPunch pb p)"
| "pb_step pb (OpSetDie d) = snd (SetDie pb d)"
| "pb_step pb (OpProcessJob j h) = fst (snd (ProcessJob pb j h))"

definition pb_run :: "PressBrake \<Rightarrow> pb_op list \<Rightarrow> PressBrake" where
  "pb_run pb ops = foldl pb_step pb ops"

text \<open>
  \<open>ProcessJob_again n\<close> calls \<^verbatim>\<open>ProcessJob\<close> \<open>n + 1\<close> times in a row on the same press
  brake and the same job, each call on what the call before left, and returns what the
  last call returns.
\<close>

fun ProcessJob_again ::
  "nat \<Rightarrow> PressBrake \<Rightarrow> Job option \<Rightarrow> store \<Rightarrow> (error + SheetMetal) \<times> PressBrake \<times> Job option" where
  "ProcessJob_again 0 pb j h = ProcessJob pb j h"
| "ProcessJob_again (Suc n) pb j h =
     (case ProcessJob pb j h of (r, pb', j') \<Rightarrow> ProcessJob_again n pb' j' h)"

text \<open>
  The two writers of a job's step list, and a run of them on a job controller. The
  number carried along counts the adds that succeeded since the last clear that
  succeeded; a call that fails leaves everything as it was.
\<close>

datatype jc_op =
    OpAdd real real real BendDirection
  | OpClear

fun jc_step :: "JobController \<times> store \<times> nat \<Rightarrow> jc_op \<Rightarrow> JobController \<times> store \<times> nat" where
  "jc_step (jc, h, n) (OpAdd pos angle radius dir) =
     (case AddBendStepToCurrentJob jc pos angle radius dir h of
        (Inl err, jc', h') \<Rightarrow> (jc', h', n)
      | (Inr step, jc', h') \<Rightarrow> (jc', h', Suc n))"
| "jc_step (jc, h, n) OpClear =
     (case ClearBendStepsFromCurrentJob jc of
        (Some err, jc') \<Rightarrow> (jc', h, n)
      | (None, jc') \<Rightarrow> (jc', h, 0))"

definition jc_run :: "JobController \<times> store \<times> nat \<Rightarrow> jc_op list \<Rightarrow> JobController \<times> store \<times> nat" where
  "jc_run st ops = foldl jc_step st ops"

text \<open>The \<^verbatim>\<open>SequenceOrder\<close> fields of the steps a job points to, in the order of the list.\<close>

definition sequence_orders :: "store \<Rightarrow> Job \<Rightarrow> int list" where
  "sequence_orders h j = map (\<lambda>step. SequenceOrder (cell h step)) (Steps j)"

subsection \<open>The add-bend handler of the application controller (lines 969 to 1015, 1070 to 1076)\<close>

text \<open>
  Of \<^verbatim>\<open>AppController\<close> the model keeps the fields the handler reads or writes.
  \<^verbatim>\<open>ac.currentJob\<close> and \<^verbatim>\<open>ac.jobController.currentJob\<close> are the same pointer:
  \<^verbatim>\<open>NewAppController\<close> sets both to \<^verbatim>\<open>currentJobInstance\<close> (lines 540 to 557) and
  nothing assigns either again. The model keeps the job once, in the job controller, and
  reads \<^verbatim>\<open>ac.currentJob\<close> there. The handler reads it only after it has found the job
  controller to be non-nil.

  The status line is the message of \<^verbatim>\<open>updateStatus\<close> and its error flag (the timer
  that clears it is left out). The two closures \<^verbatim>\<open>handleAddBendStep\<close> hands to
  \<^verbatim>\<open>showConfirmDialog\<close> are the constructors of \<open>dialog_action\<close>, with the values
  they capture. The texts of the three editors enter as the results of
  \<^verbatim>\<open>strconv.ParseFloat\<close>, \<open>None\<close> for a parse error.
\<close>

datatype status_message =
    SystemInitialized
  | JobControllerNotInitialized
  | CannotAddBendNoJobOrSheet
  | InvalidBendParameters
  | BendPositionOutside real real
  | BendRadiusOutside real
  | BendAngleOutside real
  | FailedToAddBendStep error
  | NewBendStepAdded
  | BendAdditionCancelled

datatype dialog_action =
    AddStepAction real real real BendDirection
  | CancelBendAddition

datatype dialog_message =
    NoDialogMessage
  | RadiusWarningMessage real real

record AppController =
  jobController :: "JobController option"
  selectedDirectionIdx :: int
  bendDirections :: "string list"
  statusText :: status_message
  statusIsError :: bool
  showDialog :: bool
  dialogTitle :: string
  dialogMessage :: dialog_message
  dialogConfirmAction :: "dialog_action option"
  dialogCancelAction :: "dialog_action option"

definition updateStatus :: "status_message \<Rightarrow> bool \<Rightarrow> AppController \<Rightarrow> AppController" where
  "updateStatus msg isError ac = ac\<lparr>statusText := msg, statusIsError := isError\<rparr>"

definition showConfirmDialog ::
  "string \<Rightarrow> dialog_message \<Rightarrow> dialog_action option \<Rightarrow> dialog_action option
     \<Rightarrow> AppController \<Rightarrow> AppController" where
  "showConfirmDialog title message onConfirm onCancel ac =
     ac\<lparr>dialogTitle := title, dialogMessage := message, dialogConfirmAction := onConfirm,
        dialogCancelAction := onCancel, showDialog := True\<rparr>"

definition dismissDialog :: "AppController \<Rightarrow> AppController" where
  "dismissDialog ac =
     ac\<lparr>showDialog := False, dialogConfirmAction := None, dialogCancelAction := None\<rparr>"

text \<open>The closure \<^verbatim>\<open>addStepAction\<close> (lines 1006 to 1011).\<close>

definition addStepAction ::
  "real \<Rightarrow> real \<Rightarrow> real \<Rightarrow> BendDirection \<Rightarrow> AppController \<Rightarrow> store
     \<Rightarrow> error + AppController \<times> store" where
  "addStepAction pos angle radius direction ac h =
     (case jobController ac of
        None \<Rightarrow> Inl NilPointerDereference
      | Some jc \<Rightarrow>
          (case AddBendStepToCurrentJob jc pos angle radius direction h of
             (Inl err, jc', h') \<Rightarrow>
               Inr (updateStatus (FailedToAddBendStep err) True (ac\<lparr>jobController := Some jc'\<rparr>), h')
           | (Inr step, jc', h') \<Rightarrow>
               Inr (updateStatus NewBendStepAdded False (ac\<lparr>jobController := Some jc'\<rparr>), h')))"

fun run_action :: "dialog_action \<Rightarrow> AppController \<Rightarrow> store \<Rightarrow> error + AppController \<times> store" where
  "run_action (AddStepAction pos angle radius direction) ac h =
     addStepAction pos angle radius direction ac h"
| "run_action CancelBendAddition ac h = Inr (updateStatus BendAdditionCancelled False ac, h)"

definition selectedDirection :: "AppController \<Rightarrow> BendDirection" where
  "selectedDirection ac =
     (if selectedDirectionIdx ac \<ge> 0 \<and> selectedDirectionIdx ac < int (length (bendDirections ac))
      then bendDirections ac ! nat (selectedDirectionIdx ac)
      else BendDirectionUp)"

definition handleAddBendStep ::
  "AppController \<Rightarrow> real option \<Rightarrow> real option \<Rightarrow> real option \<Rightarrow> store
     \<Rightarrow> error + AppController \<times> store" where
  "handleAddBendStep ac posP angleP radiusP h =
     (case jobController ac of
        None \<Rightarrow> Inr (updateStatus JobControllerNotInitialized True ac, h)
      | Some jc \<Rightarrow>
          (case Option.bind (currentJob jc) Sheet of
             None \<Rightarrow> Inr (updateStatus CannotAddBendNoJobOrSheet True ac, h)
           | Some s \<Rightarrow>
               (case (posP, angleP, radiusP) of
                  (Some pos, Some angle, Some radius) \<Rightarrow>
                    if pos \<le> 0 \<or> pos \<ge> OriginalLength s
                    then Inr (updateStatus (BendPositionOutside pos (OriginalLength s)) True ac, h)
                    else if radius < minBendRadius \<or> radius > maxBendRadius
                    then Inr (updateStatus (BendRadiusOutside radius) True ac, h)
                    else if angle < minBendAngle \<or> angle > maxBendAngle
                    then Inr (updateStatus (BendAngleOutside angle) True ac, h)
                    else
                      let minSheetRadius = GetMinBendRadius s
                      in if radius > 1 / 1000000 \<and> radius < minSheetRadius
                         then Inr (showConfirmDialog ''Radius Warning''
                                     (RadiusWarningMessage radius minSheetRadius)
                                     (Some (AddStepAction pos angle radius (selectedDirection ac)))
                                     (Some CancelBendAddition) ac, h)
                         else addStepAction pos angle radius (selectedDirection ac) ac h
                | _ \<Rightarrow> Inr (updateStatus InvalidBendParameters True ac, h))))"

text \<open>
  The two buttons of the dialog in \<^verbatim>\<open>processEvents\<close> (lines 969 to 972): a click
  calls \<^verbatim>\<open>dismissDialog\<close> and then tests the action field of the controller.
\<close>

definition dialogConfirmClicked :: "AppController \<Rightarrow> store \<Rightarrow> error + AppController \<times> store" where
  "dialogConfirmClicked ac h =
     (if showDialog ac
      then let ac' = dismissDialog ac
           in (case dialogConfirmAction ac' of
                 None \<Rightarrow> Inr (ac', h)
               | Some action \<Rightarrow> run_action action ac' h)
      else Inr (ac, h))"

definition dialogCancelClicked :: "AppController \<Rightarrow> store \<Rightarrow> error + AppController \<times> store" where
  "dialogCancelClicked ac h =
     (if showDialog ac
      then let ac' = dismissDialog ac
           in (case dialogCancelAction ac' of
                 None \<Rightarrow> Inr (ac', h)
               | Some action \<Rightarrow> run_action action ac' h)
      else Inr (ac, h))"

text \<open>The step list of the application's current job, empty when there is no job.\<close>

definition app_Steps :: "AppController \<Rightarrow> addr list" where
  "app_Steps ac =
     (case Option.bind (jobController ac) currentJob of None \<Rightarrow> [] | Some j \<Rightarrow> Steps j)"

subsection \<open>The state \<^verbatim>\<open>NewAppController\<close> builds (lines 507 to 600)\<close>

definition defaultPunch :: Punch where
  "defaultPunch = \<lparr>Punch_Name = ''Default Punch'', Height = 50, Punch_Angle = 90, Punch_Radius = 1.0\<rparr>"

definition defaultDie :: Die where
  "defaultDie = \<lparr>Die_Name = ''Default Die'', VOpening = 16, Die_Angle = 90, ShoulderRadius = 2.0\<rparr>"

definition initialSheet :: SheetMetal where
  "initialSheet = \<lparr>ID = ''DefaultSheet-001'', OriginalLength = 300.0, Thickness = 2.0,
                    Width = 100.0, Material = SteelMaterial, CurrentBends = []\<rparr>"

definition currentJobInstance :: Job where
  "currentJobInstance = \<lparr>Job_Name = ''DefaultJob-001'', Sheet = Some initialSheet, Steps = []\<rparr>"

definition initialJobController :: JobController where
  "initialJobController = SetCurrentJob NewJobController (Some currentJobInstance)"

definition initialPressBrake :: PressBrake where
  "initialPressBrake =
     NewPressBrake ''CNC Press Brake Simulator'' (Some defaultPunch) (Some defaultDie)"

definition initialAppController :: AppController where
  "initialAppController =
     \<lparr>jobController = Some initialJobController, selectedDirectionIdx = 0,
      bendDirections = [BendDirectionUp, BendDirectionDown],
      statusText = SystemInitialized, statusIsError = False, showDialog = False,
      dialogTitle = '''', dialogMessage = NoDialogMessage,
      dialogConfirmAction = None, dialogCancelAction = None\<rparr>"

text \<open>
  A store with no bend step allocated; its cells hold the zero value of
  \<^verbatim>\<open>BendStep\<close>.
\<close>

definition zeroBendStep :: BendStep where
  "zeroBendStep = \<lparr>SequenceOrder = 0, Position = 0, TargetAngle = 0, Radius = 0, Direction = ''''\<rparr>"

definition emptyStore :: store where
  "emptyStore = \<lparr>cell = (\<lambda>_. zeroBendStep), next_free = 0\<rparr>"


subsection \<open>A job with two steps\<close>

text \<open>
  Two adds on the initial state, and the job and the store they leave (lemma
  \<open>twoStep_reached\<close> below).
\<close>

definition twoStepOps :: "jc_op list" where
  "twoStepOps = [OpAdd 50 90 3.5 BendDirectionUp, OpAdd 120 45 4 BendDirectionDown]"

definition firstStep :: BendStep where
  "firstStep = \<lparr>SequenceOrder = 1, Position = 50, TargetAngle = 90, Radius = 3.5,
                 Direction = BendDirectionUp\<rparr>"

definition secondStep :: BendStep where
  "secondStep = \<lparr>SequenceOrder = 2, Position = 120, TargetAngle = 45, Radius = 4,
                  Direction = BendDirectionDown\<rparr>"

definition twoStepStore :: store where
  "twoStepStore = \<lparr>cell = (\<lambda>_. zeroBendStep)(0 := firstStep, Suc 0 := secondStep),
                    next_free = Suc (Suc 0)\<rparr>"

definition twoStepJob :: Job where
  "twoStepJob = currentJobInstance\<lparr>Steps := [0, Suc 0]\<rparr>"

subsection \<open>The invariant of the step list\<close>

text \<open>
  The state of a run is dense when the controller has a job, the job has as many steps
  as adds succeeded since the last clear, every step pointer is allocated, and the
  sequence numbers read 1, 2, 3 and so on along the list.
\<close>

definition dense :: "JobController \<times> store \<times> nat \<Rightarrow> bool" where
  "dense st =
     (case st of
        (jc, h, n) \<Rightarrow>
          (\<exists>j. currentJob jc = Some j \<and> length (Steps j) = n
               \<and> (\<forall>step \<in> set (Steps j). step < next_free h)
               \<and> sequence_orders h j = map int [1..<Suc n]))"

section \<open>Properties\<close>

subsection \<open>Facts used for evaluation\<close>

lemmas example_defs =
  initialJobController_def SetCurrentJob_def NewJobController_def currentJobInstance_def
  initialSheet_def SteelMaterial_def emptyStore_def twoStepStore_def twoStepJob_def
  firstStep_def secondStep_def twoStepOps_def initialPressBrake_def NewPressBrake_def
  BendDirectionUp_def BendDirectionDown_def

lemmas range_defs = minBendRadius_def maxBendRadius_def minBendAngle_def maxBendAngle_def

lemma initial_current: "currentJob initialJobController = Some currentJobInstance"
  by (simp add: initialJobController_def SetCurrentJob_def NewJobController_def)

lemma initial_sheet: "Sheet currentJobInstance = Some initialSheet"
  by (simp add: currentJobInstance_def)

lemma initial_steps: "Steps currentJobInstance = []"
  by (simp add: currentJobInstance_def)

lemma twoStepJob_sheet: "Sheet twoStepJob = Some initialSheet"
  by (simp add: twoStepJob_def currentJobInstance_def)

lemma initial_punch: "currentPunch initialPressBrake = Some defaultPunch"
  by (simp add: initialPressBrake_def NewPressBrake_def)

lemma initial_die: "currentDie initialPressBrake = Some defaultDie"
  by (simp add: initialPressBrake_def NewPressBrake_def)

lemma initial_controller: "jobController initialAppController = Some initialJobController"
  by (simp add: initialAppController_def)

text \<open>
  The sheet of \<^verbatim>\<open>NewAppController\<close> is what the constructor returns (line 537), and
  two adds on the initial state give the job with two steps.
\<close>

lemma NewSheetMetal_initialSheet:
  "NewSheetMetal ''DefaultSheet-001'' 300.0 100.0 2.0 SteelMaterial = Inr initialSheet"
  by (simp add: NewSheetMetal_def initialSheet_def SteelMaterial_def)

lemma NewJob_currentJobInstance:
  "NewJob ''DefaultJob-001'' (Some initialSheet) = Inr currentJobInstance"
  by (simp add: NewJob_def currentJobInstance_def)

lemma twoStep_reached:
  "jc_run (initialJobController, emptyStore, 0) twoStepOps
     = (initialJobController\<lparr>currentJob := Some twoStepJob\<rparr>, twoStepStore, 2)"
  by (simp add: jc_run_def AddBendStepToCurrentJob_def new_BendStep_def example_defs range_defs)

subsection \<open>Sheet metal\<close>

text \<open>
  Claim C9. \<^verbatim>\<open>NewSheetMetal\<close> is to return an error whenever the id is empty or a
  dimension is at most 0. The constructor of lines 84 to 99 has no test of the id: with
  an empty id, positive dimensions and a named material it returns a sheet whose
  \<^verbatim>\<open>ID\<close> is empty. The constructor the setup script writes (lines 1280 to 1297)
  rejects the same input.
\<close>

theorem NewSheetMetal_accepts_empty_id:
  "NewSheetMetal '''' 300.0 100.0 2.0 SteelMaterial = Inr (initialSheet\<lparr>ID := ''''\<rparr>)
   \<and> NewSheetMetal_models '''' 300.0 100.0 2.0 SteelMaterial = Inl SheetIDEmpty"
  by (simp add: NewSheetMetal_def NewSheetMetal_models_def initialSheet_def SteelMaterial_def)

text \<open>
  The rest of what is said of the constructor holds of the one of lines 84 to 99: a
  dimension of at most 0 is an error, and a sheet that is returned has the given
  dimensions, all positive, the given material and no bends. The constructor the setup
  script writes rejects the empty id as well.
\<close>

lemma NewSheetMetal_dimensions:
  "(length' \<le> 0 \<or> width \<le> 0 \<or> thickness \<le> 0 \<longrightarrow>
      NewSheetMetal id' length' width thickness material
        = Inl (SheetDimensionsNotPositive length' width thickness))
   \<and> (NewSheetMetal id' length' width thickness material = Inr s \<longrightarrow>
        0 < length' \<and> 0 < width \<and> 0 < thickness
        \<and> s = \<lparr>ID = id', OriginalLength = length', Thickness = thickness, Width = width,
                Material = material, CurrentBends = []\<rparr>)"
  by (auto simp: NewSheetMetal_def split: if_splits)

lemma NewSheetMetal_models_spec:
  "(id' = '''' \<or> length' \<le> 0 \<or> width \<le> 0 \<or> thickness \<le> 0 \<longrightarrow>
      (\<exists>e. NewSheetMetal_models id' length' width thickness material = Inl e))
   \<and> (NewSheetMetal_models id' length' width thickness material = Inr s \<longrightarrow>
        id' \<noteq> '''' \<and> 0 < length' \<and> 0 < width \<and> 0 < thickness
        \<and> s = \<lparr>ID = id', OriginalLength = length', Thickness = thickness, Width = width,
                Material = material, CurrentBends = []\<rparr>)"
  by (auto simp: NewSheetMetal_models_def split: if_splits)

text \<open>
  Claim C6. For every sheet with thickness greater than 0, \<^verbatim>\<open>GetMinBendRadius\<close>
  returns thickness times \<^verbatim>\<open>MinBendRadiusFactor\<close> when the factor of the material is
  greater than 0 and thickness times 0.5 when the factor is at most 0; for a thickness
  of at most 0 it returns 0.
\<close>

theorem GetMinBendRadius_cases:
  "(0 < Thickness s \<and> 0 < MinBendRadiusFactor (Material s)
      \<longrightarrow> GetMinBendRadius s = Thickness s * MinBendRadiusFactor (Material s))
   \<and> (0 < Thickness s \<and> MinBendRadiusFactor (Material s) \<le> 0
      \<longrightarrow> GetMinBendRadius s = Thickness s * 0.5)
   \<and> (Thickness s \<le> 0 \<longrightarrow> GetMinBendRadius s = 0)"
  by (simp add: GetMinBendRadius_def)

theorem GetMinBendRadius_cases_witness:
  "GetMinBendRadius initialSheet = 3
   \<and> GetMinBendRadius (initialSheet\<lparr>Material := SteelMaterial\<lparr>MinBendRadiusFactor := 0\<rparr>\<rparr>) = 1
   \<and> GetMinBendRadius (initialSheet\<lparr>Thickness := 0\<rparr>) = 0"
  using GetMinBendRadius_cases [of initialSheet]
    GetMinBendRadius_cases [of "initialSheet\<lparr>Material := SteelMaterial\<lparr>MinBendRadiusFactor := 0\<rparr>\<rparr>"]
    GetMinBendRadius_cases [of "initialSheet\<lparr>Thickness := 0\<rparr>"]
  by (simp add: initialSheet_def SteelMaterial_def)

subsection \<open>Job controller\<close>

text \<open>
  A call of \<^verbatim>\<open>AddBendStepToCurrentJob\<close> that returns an error leaves the controller
  and the store as they were; one that succeeds allocates the step at the first free
  address and appends that address to the step list.
\<close>

lemma AddBendStepToCurrentJob_Inl:
  "AddBendStepToCurrentJob jc pos angle radius dir h = (Inl e, jc', h') \<Longrightarrow> jc' = jc \<and> h' = h"
  by (auto simp: AddBendStepToCurrentJob_def new_BendStep_def split: option.splits if_splits)

lemma AddBendStepToCurrentJob_Inr:
  assumes "AddBendStepToCurrentJob jc pos angle radius dir h = (Inr step, jc', h')"
  shows "\<exists>j. currentJob jc = Some j
           \<and> step = next_free h
           \<and> jc' = jc\<lparr>currentJob := Some (j\<lparr>Steps := Steps j @ [next_free h]\<rparr>)\<rparr>
           \<and> h' = h\<lparr>cell := (cell h)(next_free h :=
                        \<lparr>SequenceOrder = int (length (Steps j)) + 1, Position = pos,
                         TargetAngle = angle, Radius = radius, Direction = dir\<rparr>),
                     next_free := Suc (next_free h)\<rparr>"
  using assms
  by (auto simp: AddBendStepToCurrentJob_def new_BendStep_def split: option.splits if_splits)

text \<open>
  Claim C2. With a current job and a sheet set, \<^verbatim>\<open>AddBendStepToCurrentJob\<close> returns
  an error and leaves the step list (the whole controller and the store) unchanged
  whenever the position is at most 0 or at least the sheet's length, the radius is below
  0 or above 500, or the angle is below 1 or above 179; with all three parameters inside
  their ranges it does not reject.
\<close>

theorem AddBendStepToCurrentJob_range_checks:
  assumes "currentJob jc = Some j" and "Sheet j = Some s"
  shows "(pos \<le> 0 \<or> pos \<ge> OriginalLength s \<or> radius < 0 \<or> radius > 500 \<or> angle < 1 \<or> angle > 179
            \<longrightarrow> (\<exists>e. AddBendStepToCurrentJob jc pos angle radius dir h = (Inl e, jc, h)))
       \<and> (0 < pos \<and> pos < OriginalLength s \<and> 0 \<le> radius \<and> radius \<le> 500 \<and> 1 \<le> angle \<and> angle \<le> 179
            \<longrightarrow> (\<exists>step jc' h'. AddBendStepToCurrentJob jc pos angle radius dir h = (Inr step, jc', h')))"
  using assms
  by (auto simp: AddBendStepToCurrentJob_def new_BendStep_def minBendRadius_def maxBendRadius_def
      minBendAngle_def maxBendAngle_def)

theorem AddBendStepToCurrentJob_range_checks_witness:
  "currentJob initialJobController = Some currentJobInstance
   \<and> Sheet currentJobInstance = Some initialSheet
   \<and> (300::real) \<ge> OriginalLength initialSheet
   \<and> (\<exists>e. AddBendStepToCurrentJob initialJobController 300 90 3.5 BendDirectionUp emptyStore
             = (Inl e, initialJobController, emptyStore))
   \<and> (0::real) < 50 \<and> 50 < OriginalLength initialSheet
   \<and> (\<exists>step jc' h'. AddBendStepToCurrentJob initialJobController 50 90 3.5 BendDirectionUp emptyStore
             = (Inr step, jc', h'))"
  using AddBendStepToCurrentJob_range_checks [OF initial_current initial_sheet, where pos = 300 and radius = "3.5" and angle = 90 and dir = BendDirectionUp and h = emptyStore]
    AddBendStepToCurrentJob_range_checks [OF initial_current initial_sheet, where pos = 50 and radius = "3.5" and angle = 90 and dir = BendDirectionUp and h = emptyStore]
  by (simp add: initial_current initial_sheet initialSheet_def)

text \<open>
  Every step of a run keeps the state dense: a failed call changes nothing, a clear
  empties the list, and an add writes the new step at an address above all those the
  list holds, so the steps already there are not overwritten.
\<close>

lemma dense_jc_step:
  assumes "dense st"
  shows "dense (jc_step st op)"
proof -
  obtain jc h n where st: "st = (jc, h, n)"
    by (cases st) auto
  from assms st obtain j where j: "currentJob jc = Some j" "length (Steps j) = n"
    and below: "\<forall>step \<in> set (Steps j). step < next_free h"
    and orders: "sequence_orders h j = map int [1..<Suc n]"
    by (auto simp: dense_def)
  show ?thesis
  proof (cases op)
    case (OpAdd pos angle radius dir)
    obtain r jc' h' where run: "AddBendStepToCurrentJob jc pos angle radius dir h = (r, jc', h')"
      by (cases "AddBendStepToCurrentJob jc pos angle radius dir h") auto
    show ?thesis
    proof (cases r)
      case (Inl e)
      with run AddBendStepToCurrentJob_Inl [of jc pos angle radius dir h e jc' h']
      have "jc_step st op = st"
        by (simp add: st OpAdd)
      with assms show ?thesis by simp
    next
      case (Inr step)
      let ?new = "\<lparr>SequenceOrder = int (length (Steps j)) + 1, Position = pos,
                    TargetAngle = angle, Radius = radius, Direction = dir\<rparr>"
      from run Inr AddBendStepToCurrentJob_Inr [of jc pos angle radius dir h step jc' h'] j
      have jc': "jc' = jc\<lparr>currentJob := Some (j\<lparr>Steps := Steps j @ [next_free h]\<rparr>)\<rparr>"
        and h': "h' = h\<lparr>cell := (cell h)(next_free h := ?new), next_free := Suc (next_free h)\<rparr>"
        by auto
      have old: "map (\<lambda>step. SequenceOrder (cell h' step)) (Steps j)
                   = map (\<lambda>step. SequenceOrder (cell h step)) (Steps j)"
        using below by (auto simp: h')
      have "sequence_orders h' (j\<lparr>Steps := Steps j @ [next_free h]\<rparr>)
              = map int [1..<Suc n] @ [int n + 1]"
        using orders old j(2) by (simp add: sequence_orders_def h')
      then have "sequence_orders h' (j\<lparr>Steps := Steps j @ [next_free h]\<rparr>)
                   = map int [1..<Suc (Suc n)]"
        by simp
      moreover have "\<forall>step \<in> set (Steps j @ [next_free h]). step < next_free h'"
        using below by (auto simp: h' less_Suc_eq)
      moreover have "jc_step st op = (jc', h', Suc n)"
        using run Inr by (simp add: st OpAdd)
      ultimately show ?thesis
        using j(2) by (simp add: dense_def jc')
    qed
  next
    case OpClear
    with j have "jc_step st op =
        (jc\<lparr>currentJob := Some (j\<lparr>Steps := [], Sheet := map_option ResetForm (Sheet j)\<rparr>)\<rparr>, h, 0)"
      by (simp add: st ClearBendStepsFromCurrentJob_def)
    then show ?thesis
      by (simp add: dense_def sequence_orders_def)
  qed
qed

lemma dense_jc_run: "dense st \<Longrightarrow> dense (jc_run st ops)"
  unfolding jc_run_def
  by (induction ops arbitrary: st) (simp_all add: dense_jc_step)

text \<open>
  Claim C7. For every job reached from an empty step list by any sequence of
  \<^verbatim>\<open>AddBendStepToCurrentJob\<close> and \<^verbatim>\<open>ClearBendStepsFromCurrentJob\<close> calls, the
  step list is dense and 1-based: if \<open>n\<close> adds succeeded since the last clear, the
  list has \<open>n\<close> steps and the step at index \<open>i\<close> has \<^verbatim>\<open>SequenceOrder\<close> \<open>i + 1\<close>.
\<close>

theorem SequenceOrder_dense_and_one_based:
  assumes "currentJob jc = Some j" and "Steps j = []"
    and "jc_run (jc, h, 0) ops = (jc', h', n)"
  shows "\<exists>j'. currentJob jc' = Some j' \<and> length (Steps j') = n
           \<and> (\<forall>i < n. SequenceOrder (cell h' (Steps j' ! i)) = int i + 1)"
proof -
  have "dense (jc, h, 0)"
    using assms(1,2) by (simp add: dense_def sequence_orders_def)
  then have "dense (jc_run (jc, h, 0) ops)"
    by (rule dense_jc_run)
  with assms(3) obtain j' where j': "currentJob jc' = Some j'" "length (Steps j') = n"
    and orders: "sequence_orders h' j' = map int [1..<Suc n]"
    by (auto simp: dense_def)
  have "SequenceOrder (cell h' (Steps j' ! i)) = int i + 1" if "i < n" for i
  proof -
    have "map int [1..<Suc n] ! i = int i + 1"
      using that by (simp del: upt_Suc)
    moreover have "sequence_orders h' j' ! i = SequenceOrder (cell h' (Steps j' ! i))"
      using that j'(2) by (simp add: sequence_orders_def)
    ultimately show ?thesis
      by (simp only: orders)
  qed
  with j' show ?thesis by blast
qed

theorem SequenceOrder_dense_and_one_based_witness:
  "currentJob initialJobController = Some currentJobInstance
   \<and> Steps currentJobInstance = []
   \<and> jc_run (initialJobController, emptyStore, 0) twoStepOps
       = (initialJobController\<lparr>currentJob := Some twoStepJob\<rparr>, twoStepStore, 2)
   \<and> SequenceOrder (cell twoStepStore (Steps twoStepJob ! 0)) = 1
   \<and> SequenceOrder (cell twoStepStore (Steps twoStepJob ! 1)) = 2"
  using SequenceOrder_dense_and_one_based [OF initial_current initial_steps twoStep_reached]
    twoStep_reached
  by (simp add: initial_current initial_steps twoStepJob_def twoStepStore_def firstStep_def
      secondStep_def)

text \<open>
  Claim C8. \<^verbatim>\<open>ClearBendStepsFromCurrentJob\<close> fails exactly when no current job is
  set. Otherwise it succeeds, empties the step list and resets the \<^verbatim>\<open>CurrentBends\<close>
  of the job's sheet to empty, leaving the rest of the job as it was. It is idempotent:
  a second call returns what the first returned and leaves the same state, so on a job
  whose step list is already empty it succeeds and the sheet is flat.
\<close>

theorem ClearBendStepsFromCurrentJob_spec:
  "(fst (ClearBendStepsFromCurrentJob jc) \<noteq> None \<longleftrightarrow> currentJob jc = None)
   \<and> (currentJob jc = None \<longrightarrow> ClearBendStepsFromCurrentJob jc = (Some NoCurrentJobToClear, jc))
   \<and> (\<forall>j. currentJob jc = Some j \<longrightarrow>
         (\<exists>j'. ClearBendStepsFromCurrentJob jc = (None, jc\<lparr>currentJob := Some j'\<rparr>)
               \<and> Steps j' = [] \<and> Job_Name j' = Job_Name j
               \<and> (Sheet j = None \<longrightarrow> Sheet j' = None)
               \<and> (\<forall>s. Sheet j = Some s \<longrightarrow> Sheet j' = Some (s\<lparr>CurrentBends := []\<rparr>))))
   \<and> ClearBendStepsFromCurrentJob (snd (ClearBendStepsFromCurrentJob jc))
       = ClearBendStepsFromCurrentJob jc"
  by (cases "currentJob jc"; cases "Sheet (the (currentJob jc))")
     (auto simp: ClearBendStepsFromCurrentJob_def ResetForm_def)

theorem ClearBendStepsFromCurrentJob_spec_witness:
  "ClearBendStepsFromCurrentJob NewJobController = (Some NoCurrentJobToClear, NewJobController)
   \<and> currentJob (initialJobController\<lparr>currentJob := Some twoStepJob\<rparr>) = Some twoStepJob
   \<and> ClearBendStepsFromCurrentJob (initialJobController\<lparr>currentJob := Some twoStepJob\<rparr>)
       = (None, initialJobController)
   \<and> ClearBendStepsFromCurrentJob initialJobController = (None, initialJobController)"
  using ClearBendStepsFromCurrentJob_spec [of NewJobController]
    ClearBendStepsFromCurrentJob_spec [of "initialJobController\<lparr>currentJob := Some twoStepJob\<rparr>"]
  by (simp add: ClearBendStepsFromCurrentJob_def ResetForm_def example_defs)

subsection \<open>Press brake\<close>

text \<open>
  The loop appends to the bends of the sheet the values of the steps, in the order of
  the list. A call on a job with a sheet, with both tools set, succeeds, and so does
  every further call on what it leaves.
\<close>

lemma CurrentBends_apply_steps:
  "CurrentBends (apply_steps h steps s) = CurrentBends s @ map (cell h) steps"
  by (induction steps arbitrary: s) simp_all

lemma apply_steps_eq:
  "apply_steps h steps s = s\<lparr>CurrentBends := CurrentBends s @ map (cell h) steps\<rparr>"
  by (induction steps arbitrary: s) simp_all

lemma ProcessJob_success:
  assumes "Sheet job = Some s" and "currentPunch pb = Some p" and "currentDie pb = Some d"
  shows "ProcessJob pb (Some job) h =
           (Inr (s\<lparr>CurrentBends := map (cell h) (Steps job)\<rparr>),
            pb\<lparr>totalPartsBentSession := totalPartsBentSession pb + 1\<rparr>,
            Some (job\<lparr>Sheet := Some (s\<lparr>CurrentBends := map (cell h) (Steps job)\<rparr>)\<rparr>))"
  using assms by (simp add: ProcessJob_def apply_steps_eq ResetForm_def Let_def)

lemma ProcessJob_again_success:
  assumes "Sheet job = Some s" and "currentPunch pb = Some p" and "currentDie pb = Some d"
  shows "ProcessJob_again n pb (Some job) h =
           (Inr (s\<lparr>CurrentBends := map (cell h) (Steps job)\<rparr>),
            pb\<lparr>totalPartsBentSession := totalPartsBentSession pb + of_nat n + 1\<rparr>,
            Some (job\<lparr>Sheet := Some (s\<lparr>CurrentBends := map (cell h) (Steps job)\<rparr>)\<rparr>))"
  using assms
proof (induction n arbitrary: pb job s)
  case 0
  then show ?case by (simp add: ProcessJob_success)
next
  case (Suc n)
  let ?s' = "s\<lparr>CurrentBends := map (cell h) (Steps job)\<rparr>"
  let ?pb' = "pb\<lparr>totalPartsBentSession := totalPartsBentSession pb + 1\<rparr>"
  let ?job' = "job\<lparr>Sheet := Some ?s'\<rparr>"
  have first: "ProcessJob pb (Some job) h = (Inr ?s', ?pb', Some ?job')"
    using Suc.prems by (rule ProcessJob_success)
  have "ProcessJob_again n ?pb' (Some ?job') h =
          (Inr (?s'\<lparr>CurrentBends := map (cell h) (Steps ?job')\<rparr>),
           ?pb'\<lparr>totalPartsBentSession := totalPartsBentSession ?pb' + of_nat n + 1\<rparr>,
           Some (?job'\<lparr>Sheet := Some (?s'\<lparr>CurrentBends := map (cell h) (Steps ?job')\<rparr>)\<rparr>))"
    using Suc.prems by (intro Suc.IH) simp_all
  with first show ?case by simp
qed

lemma twoStep_ProcessJob:
  "ProcessJob initialPressBrake (Some twoStepJob) twoStepStore
     = (Inr (initialSheet\<lparr>CurrentBends := [firstStep, secondStep]\<rparr>),
        initialPressBrake\<lparr>totalPartsBentSession := 1\<rparr>,
        Some (twoStepJob\<lparr>Sheet := Some (initialSheet\<lparr>CurrentBends := [firstStep, secondStep]\<rparr>)\<rparr>))"
  by (simp add: ProcessJob_def Let_def ResetForm_def
      twoStepJob_def twoStepStore_def currentJobInstance_def initialSheet_def
      initialPressBrake_def NewPressBrake_def)

text \<open>
  Claim C3. For every job with a sheet, on a press brake with punch and die set, every
  call of \<^verbatim>\<open>ProcessJob\<close> succeeds and leaves \<^verbatim>\<open>sheet.CurrentBends\<close> equal to the
  job's step list in its stored order, the bend at index \<open>i\<close> being the value of
  \<^verbatim>\<open>steps[i]\<close>. This holds for the first call and for each repeated call on the
  unchanged job (\<open>n + 1\<close> calls in a row, for every \<open>n\<close>), whatever bends the sheet
  had before.
\<close>

theorem ProcessJob_replays_steps_in_order:
  assumes "Sheet job = Some s" and "currentPunch pb = Some p" and "currentDie pb = Some d"
  shows "\<exists>s' pb' job'. ProcessJob_again n pb (Some job) h = (Inr s', pb', Some job')
           \<and> Sheet job' = Some s'
           \<and> Steps job' = Steps job
           \<and> CurrentBends s' = map (cell h) (Steps job)
           \<and> length (CurrentBends s') = length (Steps job)
           \<and> (\<forall>i < length (Steps job). CurrentBends s' ! i = cell h (Steps job ! i))"
  using ProcessJob_again_success [OF assms, of n h] by simp

theorem ProcessJob_replays_steps_in_order_witness:
  "Sheet twoStepJob = Some initialSheet
   \<and> currentPunch initialPressBrake = Some defaultPunch
   \<and> currentDie initialPressBrake = Some defaultDie
   \<and> ProcessJob_again (Suc (Suc 0)) initialPressBrake (Some twoStepJob) twoStepStore
       = (Inr (initialSheet\<lparr>CurrentBends := [firstStep, secondStep]\<rparr>),
          initialPressBrake\<lparr>totalPartsBentSession := 3\<rparr>,
          Some (twoStepJob\<lparr>Sheet := Some (initialSheet\<lparr>CurrentBends := [firstStep, secondStep]\<rparr>)\<rparr>))"
  using ProcessJob_replays_steps_in_order [OF twoStepJob_sheet initial_punch initial_die,
      of "Suc (Suc 0)" twoStepStore]
  by (simp add: twoStepJob_sheet initial_punch initial_die ProcessJob_def Let_def ResetForm_def
      twoStepJob_def twoStepStore_def currentJobInstance_def initialSheet_def
      initialPressBrake_def NewPressBrake_def)

text \<open>
  Claim C4. \<^verbatim>\<open>ProcessJob\<close> returns an error without mutating anything when the job
  is nil, the job's sheet is nil, or the punch or the die is unset: the press brake
  (with its counter \<^verbatim>\<open>totalPartsBentSession\<close>) and the job (with its step list and
  its sheet's \<^verbatim>\<open>CurrentBends\<close>) are returned as they were.
\<close>

theorem ProcessJob_fails_without_mutation:
  "((j = None \<or> (\<exists>job. j = Some job \<and> Sheet job = None))
      \<longrightarrow> ProcessJob pb j h = (Inl JobOrSheetNil, pb, j))
   \<and> ((currentPunch pb = None \<or> currentDie pb = None)
      \<longrightarrow> (\<exists>e. ProcessJob pb j h = (Inl e, pb, j)))
   \<and> ((\<exists>job s. j = Some job \<and> Sheet job = Some s) \<and> (currentPunch pb = None \<or> currentDie pb = None)
      \<longrightarrow> ProcessJob pb j h = (Inl ToolingNotSet, pb, j))"
  by (auto simp: ProcessJob_def split: option.splits)

theorem ProcessJob_fails_without_mutation_witness:
  "ProcessJob initialPressBrake None twoStepStore = (Inl JobOrSheetNil, initialPressBrake, None)
   \<and> ProcessJob initialPressBrake (Some (twoStepJob\<lparr>Sheet := None\<rparr>)) twoStepStore
       = (Inl JobOrSheetNil, initialPressBrake, Some (twoStepJob\<lparr>Sheet := None\<rparr>))
   \<and> currentDie (initialPressBrake\<lparr>currentDie := None\<rparr>) = None
   \<and> ProcessJob (initialPressBrake\<lparr>currentDie := None\<rparr>) (Some twoStepJob) twoStepStore
       = (Inl ToolingNotSet, initialPressBrake\<lparr>currentDie := None\<rparr>, Some twoStepJob)
   \<and> ProcessJob (initialPressBrake\<lparr>currentPunch := None\<rparr>) (Some twoStepJob) twoStepStore
       = (Inl ToolingNotSet, initialPressBrake\<lparr>currentPunch := None\<rparr>, Some twoStepJob)"
  using ProcessJob_fails_without_mutation [of None initialPressBrake twoStepStore]
    ProcessJob_fails_without_mutation [of "Some (twoStepJob\<lparr>Sheet := None\<rparr>)" initialPressBrake twoStepStore]
    ProcessJob_fails_without_mutation [of "Some twoStepJob" "initialPressBrake\<lparr>currentDie := None\<rparr>" twoStepStore]
    ProcessJob_fails_without_mutation [of "Some twoStepJob" "initialPressBrake\<lparr>currentPunch := None\<rparr>" twoStepStore]
  by (simp add: twoStepJob_def currentJobInstance_def)

text \<open>
  A call of \<^verbatim>\<open>ProcessJob\<close> adds 1 to the counter, in 64-bit arithmetic, when it
  succeeds and nothing when it fails; setting a tool leaves the counter alone. Below
  \<open>2 ^ 63 - 1\<close> the addition does not wrap, so a run of operations that fits below
  \<open>2 ^ 63\<close> moves the counter up by at most its length and never down.
\<close>

lemma sint_counter_succ:
  fixes c :: "64 word"
  assumes "sint c < 2 ^ 63 - 1"
  shows "sint (c + 1) = sint c + 1"
proof -
  have lower: "- (2 ^ 63) \<le> sint c"
    using sint_ge [of c] by simp
  have "sint (c + 1) = signed_take_bit 63 (sint c + 1)"
    by (simp add: sint_word_ariths)
  also have "\<dots> = sint c + 1"
    using lower assms by (simp add: signed_take_bit_int_eq_self)
  finally show ?thesis .
qed

lemma totalPartsBentSession_ProcessJob:
  "ProcessJob pb j h = (r, pb', j') \<Longrightarrow>
     totalPartsBentSession pb' = totalPartsBentSession pb + (if isl r then 0 else 1)"
  by (auto simp: ProcessJob_def Let_def split: option.splits if_splits)

lemma totalPartsBentSession_pb_step:
  assumes "sint (totalPartsBentSession pb) < 2 ^ 63 - 1"
  shows "sint (totalPartsBentSession pb) \<le> sint (totalPartsBentSession (pb_step pb op))
         \<and> sint (totalPartsBentSession (pb_step pb op)) \<le> sint (totalPartsBentSession pb) + 1"
proof (cases op)
  case (OpSetPunch p)
  then show ?thesis by (simp add: SetPunch_def split: option.splits)
next
  case (OpSetDie d)
  then show ?thesis by (simp add: SetDie_def split: option.splits)
next
  case (OpProcessJob j h)
  obtain r pb' j' where run: "ProcessJob pb j h = (r, pb', j')"
    by (cases "ProcessJob pb j h") auto
  from totalPartsBentSession_ProcessJob [OF run] OpProcessJob run sint_counter_succ [OF assms]
  show ?thesis
    by (cases "isl r") simp_all
qed

lemma totalPartsBentSession_pb_run:
  assumes "sint (totalPartsBentSession pb) + int (length ops) < 2 ^ 63"
  shows "sint (totalPartsBentSession pb) \<le> sint (totalPartsBentSession (pb_run pb ops))
         \<and> sint (totalPartsBentSession (pb_run pb ops))
             \<le> sint (totalPartsBentSession pb) + int (length ops)"
  using assms unfolding pb_run_def
proof (induction ops arbitrary: pb)
  case Nil
  show ?case by simp
next
  case (Cons op ops)
  from Cons.prems have room: "sint (totalPartsBentSession pb) < 2 ^ 63 - 1"
    by simp
  note step = totalPartsBentSession_pb_step [OF room, of op]
  from step Cons.prems
  have "sint (totalPartsBentSession (pb_step pb op)) + int (length ops) < 2 ^ 63"
    by simp
  from Cons.IH [OF this] step show ?case
    by simp
qed

text \<open>
  Claim C5, amended. Every successful call of \<^verbatim>\<open>ProcessJob\<close> on a press brake whose
  counter is below the largest \<^verbatim>\<open>int\<close>, \<open>2 ^ 63 - 1\<close>, increments
  \<^verbatim>\<open>totalPartsBentSession\<close> by exactly 1, however many steps the job has; two
  successful calls in sequence that start at least two below the largest \<^verbatim>\<open>int\<close>
  increase it by exactly 2; and over any sequence of operations on the press brake that
  fits below \<open>2 ^ 63\<close> (the counter plus the number of operations) the counter never
  decreases.
\<close>

theorem ProcessJob_counts_one_part:
  "(\<forall>s' pb' j'. ProcessJob pb j h = (Inr s', pb', j')
          \<and> sint (totalPartsBentSession pb) < 2 ^ 63 - 1
        \<longrightarrow> sint (totalPartsBentSession pb') = sint (totalPartsBentSession pb) + 1)
   \<and> (\<forall>s1 pb1 j1 j2 h2 s2 pb2 j2'.
        ProcessJob pb j h = (Inr s1, pb1, j1) \<and> ProcessJob pb1 j2 h2 = (Inr s2, pb2, j2')
          \<and> sint (totalPartsBentSession pb) < 2 ^ 63 - 2
        \<longrightarrow> sint (totalPartsBentSession pb2) = sint (totalPartsBentSession pb) + 2)
   \<and> (\<forall>ops. sint (totalPartsBentSession pb) + int (length ops) < 2 ^ 63
        \<longrightarrow> sint (totalPartsBentSession pb) \<le> sint (totalPartsBentSession (pb_run pb ops)))"
proof (intro conjI allI impI)
  fix s' pb' j'
  assume call: "ProcessJob pb j h = (Inr s', pb', j')
    \<and> sint (totalPartsBentSession pb) < 2 ^ 63 - 1"
  then have "totalPartsBentSession pb' = totalPartsBentSession pb + 1"
    using totalPartsBentSession_ProcessJob [of pb j h "Inr s'" pb' j'] by simp
  with call show "sint (totalPartsBentSession pb') = sint (totalPartsBentSession pb) + 1"
    by (simp add: sint_counter_succ)
next
  fix s1 pb1 j1 j2 h2 s2 pb2 j2'
  assume calls: "ProcessJob pb j h = (Inr s1, pb1, j1) \<and> ProcessJob pb1 j2 h2 = (Inr s2, pb2, j2')
    \<and> sint (totalPartsBentSession pb) < 2 ^ 63 - 2"
  then have words: "totalPartsBentSession pb1 = totalPartsBentSession pb + 1"
    "totalPartsBentSession pb2 = totalPartsBentSession pb1 + 1"
    using totalPartsBentSession_ProcessJob [of pb j h "Inr s1" pb1 j1]
      totalPartsBentSession_ProcessJob [of pb1 j2 h2 "Inr s2" pb2 j2']
    by simp_all
  from calls have "sint (totalPartsBentSession pb) < 2 ^ 63 - 1"
    by simp
  then have first: "sint (totalPartsBentSession pb1) = sint (totalPartsBentSession pb) + 1"
    by (simp only: words(1) sint_counter_succ)
  with calls have "sint (totalPartsBentSession pb1) < 2 ^ 63 - 1"
    by simp
  then have "sint (totalPartsBentSession pb2) = sint (totalPartsBentSession pb1) + 1"
    by (simp only: words(2) sint_counter_succ)
  with first show "sint (totalPartsBentSession pb2) = sint (totalPartsBentSession pb) + 2"
    by simp
next
  fix ops :: "pb_op list"
  assume "sint (totalPartsBentSession pb) + int (length ops) < 2 ^ 63"
  from totalPartsBentSession_pb_run [OF this]
  show "sint (totalPartsBentSession pb) \<le> sint (totalPartsBentSession (pb_run pb ops))"
    by simp
qed

theorem ProcessJob_counts_one_part_witness:
  "ProcessJob initialPressBrake (Some twoStepJob) twoStepStore
     = (Inr (initialSheet\<lparr>CurrentBends := [firstStep, secondStep]\<rparr>),
        initialPressBrake\<lparr>totalPartsBentSession := 1\<rparr>,
        Some (twoStepJob\<lparr>Sheet := Some (initialSheet\<lparr>CurrentBends := [firstStep, secondStep]\<rparr>)\<rparr>))
   \<and> ProcessJob (initialPressBrake\<lparr>totalPartsBentSession := 1\<rparr>) (Some currentJobInstance) emptyStore
     = (Inr initialSheet, initialPressBrake\<lparr>totalPartsBentSession := 2\<rparr>, Some currentJobInstance)
   \<and> sint (totalPartsBentSession initialPressBrake) = 0
   \<and> sint (totalPartsBentSession initialPressBrake) < 2 ^ 63 - 2
   \<and> sint (totalPartsBentSession (initialPressBrake\<lparr>totalPartsBentSession := 1\<rparr>)) = 1
   \<and> sint (totalPartsBentSession (initialPressBrake\<lparr>totalPartsBentSession := 2\<rparr>)) = 2
   \<and> sint (totalPartsBentSession initialPressBrake)
        + int (length [OpProcessJob (Some twoStepJob) twoStepStore, OpSetDie None,
             OpProcessJob (Some twoStepJob) twoStepStore, OpSetDie (Some defaultDie),
             OpProcessJob (Some currentJobInstance) emptyStore]) < 2 ^ 63
   \<and> sint (totalPartsBentSession
         (pb_run initialPressBrake
            [OpProcessJob (Some twoStepJob) twoStepStore, OpSetDie None,
             OpProcessJob (Some twoStepJob) twoStepStore, OpSetDie (Some defaultDie),
             OpProcessJob (Some currentJobInstance) emptyStore])) = 2"
  using ProcessJob_counts_one_part [of initialPressBrake "Some twoStepJob" twoStepStore]
  by (simp add: pb_run_def SetDie_def ProcessJob_def Let_def ResetForm_def
      twoStepJob_def twoStepStore_def currentJobInstance_def initialSheet_def
      initialPressBrake_def NewPressBrake_def)

text \<open>
  Without the bound the property fails. With the counter at \<open>2 ^ 63 - 1\<close> a call on
  the initial job succeeds and leaves the counter at \<open>- (2 ^ 63)\<close>: it has not grown by
  1, and it has decreased.
\<close>

theorem ProcessJob_counter_wraps_at_largest_int:
  "ProcessJob (initialPressBrake\<lparr>totalPartsBentSession := 9223372036854775807\<rparr>)
       (Some currentJobInstance) emptyStore
     = (Inr initialSheet,
        initialPressBrake\<lparr>totalPartsBentSession := 9223372036854775808\<rparr>,
        Some currentJobInstance)
   \<and> sint (totalPartsBentSession
        (initialPressBrake\<lparr>totalPartsBentSession := 9223372036854775807\<rparr>))
       = 9223372036854775807
   \<and> sint (totalPartsBentSession
        (initialPressBrake\<lparr>totalPartsBentSession := 9223372036854775808\<rparr>))
       = - 9223372036854775808
   \<and> sint (totalPartsBentSession
        (pb_run (initialPressBrake\<lparr>totalPartsBentSession := 9223372036854775807\<rparr>)
           [OpProcessJob (Some currentJobInstance) emptyStore]))
       < sint (totalPartsBentSession
           (initialPressBrake\<lparr>totalPartsBentSession := 9223372036854775807\<rparr>))"
  by (simp add: pb_run_def ProcessJob_def Let_def ResetForm_def currentJobInstance_def
      initialSheet_def initialPressBrake_def NewPressBrake_def)

text \<open>
  Claim C10. For every job accepted by \<^verbatim>\<open>ProcessJob\<close>, the job's own step list is
  left unchanged: the job returned differs from the one given in its sheet only, so the
  list holds the same pointers, and the store they point into is not written, so they
  point to the same values. The bends of the sheet are copies of these values: whatever
  is later written into \<^verbatim>\<open>CurrentBends\<close>, the step list of the job stays the same.
\<close>

theorem ProcessJob_leaves_steps_alone:
  assumes "ProcessJob pb (Some job) h = (Inr s', pb', j')"
  shows "\<exists>job'. j' = Some job'
           \<and> Steps job' = Steps job
           \<and> length (Steps job') = length (Steps job)
           \<and> map (cell h) (Steps job') = map (cell h) (Steps job)
           \<and> Job_Name job' = Job_Name job
           \<and> Sheet job' = Some s'
           \<and> CurrentBends s' = map (cell h) (Steps job)
           \<and> (\<forall>bends. Steps (job'\<lparr>Sheet := Some (s'\<lparr>CurrentBends := bends\<rparr>)\<rparr>) = Steps job)"
  using assms
  by (auto simp: ProcessJob_def Let_def apply_steps_eq ResetForm_def split: option.splits if_splits)

theorem ProcessJob_leaves_steps_alone_witness:
  "ProcessJob initialPressBrake (Some twoStepJob) twoStepStore
     = (Inr (initialSheet\<lparr>CurrentBends := [firstStep, secondStep]\<rparr>),
        initialPressBrake\<lparr>totalPartsBentSession := 1\<rparr>,
        Some (twoStepJob\<lparr>Sheet := Some (initialSheet\<lparr>CurrentBends := [firstStep, secondStep]\<rparr>)\<rparr>))
   \<and> Steps (twoStepJob\<lparr>Sheet := Some (initialSheet\<lparr>CurrentBends := [firstStep, secondStep]\<rparr>)\<rparr>)
       = Steps twoStepJob
   \<and> Steps (twoStepJob\<lparr>Sheet := Some (initialSheet\<lparr>CurrentBends := []\<rparr>)\<rparr>) = [0, Suc 0]"
  using ProcessJob_leaves_steps_alone [OF twoStep_ProcessJob] twoStep_ProcessJob
  by (simp add: twoStepJob_def)

subsection \<open>The add-bend handler\<close>

text \<open>
  Claim C1, amended. For every sheet and every proposed bend whose position, angle and
  radius pass the range checks and whose radius lies strictly between one millionth and
  \<^verbatim>\<open>GetMinBendRadius\<close> of the sheet, \<^verbatim>\<open>handleAddBendStep\<close> does not append the
  step: it leaves the job controller and the store unchanged and opens the confirmation
  dialog. The confirm action it stores is the add-step closure, which appends the step
  when it is run; the cancel action it stores leaves the step list unchanged.
\<close>

theorem handleAddBendStep_asks_before_adding:
  assumes "jobController ac = Some jc" and "currentJob jc = Some j" and "Sheet j = Some s"
    and "0 < pos" and "pos < OriginalLength s"
    and "radius \<le> 500" and "1 \<le> angle" and "angle \<le> 179"
    and "1 / 1000000 < radius" and "radius < GetMinBendRadius s"
  shows "\<exists>ac'. handleAddBendStep ac (Some pos) (Some angle) (Some radius) h = Inr (ac', h)
           \<and> jobController ac' = Some jc
           \<and> app_Steps ac' = Steps j
           \<and> showDialog ac'
           \<and> dialogConfirmAction ac' = Some (AddStepAction pos angle radius (selectedDirection ac))
           \<and> dialogCancelAction ac' = Some CancelBendAddition
           \<and> (\<exists>ac'' h''.
                 run_action (AddStepAction pos angle radius (selectedDirection ac)) ac' h
                   = Inr (ac'', h'')
                 \<and> app_Steps ac'' = Steps j @ [next_free h]
                 \<and> cell h'' (next_free h)
                     = \<lparr>SequenceOrder = int (length (Steps j)) + 1, Position = pos,
                        TargetAngle = angle, Radius = radius,
                        Direction = selectedDirection ac\<rparr>)
           \<and> (\<exists>ac''. run_action CancelBendAddition ac' h = Inr (ac'', h)
                 \<and> jobController ac'' = Some jc
                 \<and> app_Steps ac'' = Steps j)"
proof -
  let ?dir = "selectedDirection ac"
  let ?ac' = "showConfirmDialog ''Radius Warning''
                (RadiusWarningMessage radius (GetMinBendRadius s))
                (Some (AddStepAction pos angle radius ?dir)) (Some CancelBendAddition) ac"
  have handler: "handleAddBendStep ac (Some pos) (Some angle) (Some radius) h = Inr (?ac', h)"
    using assms by (simp add: handleAddBendStep_def range_defs Let_def)
  have jc': "jobController ?ac' = Some jc"
    using assms(1) by (simp add: showConfirmDialog_def)
  have add: "AddBendStepToCurrentJob jc pos angle radius ?dir h =
      (Inr (next_free h),
       jc\<lparr>currentJob := Some (j\<lparr>Steps := Steps j @ [next_free h]\<rparr>)\<rparr>,
       snd (new_BendStep \<lparr>SequenceOrder = int (length (Steps j)) + 1, Position = pos,
              TargetAngle = angle, Radius = radius, Direction = ?dir\<rparr> h))"
    using assms by (simp add: AddBendStepToCurrentJob_def new_BendStep_def range_defs)
  have confirm: "\<exists>ac'' h''.
      run_action (AddStepAction pos angle radius ?dir) ?ac' h = Inr (ac'', h'')
      \<and> app_Steps ac'' = Steps j @ [next_free h]
      \<and> cell h'' (next_free h)
          = \<lparr>SequenceOrder = int (length (Steps j)) + 1, Position = pos,
             TargetAngle = angle, Radius = radius, Direction = ?dir\<rparr>"
    using jc' add
    by (simp add: addStepAction_def updateStatus_def app_Steps_def new_BendStep_def)
  have cancel: "\<exists>ac''. run_action CancelBendAddition ?ac' h = Inr (ac'', h)
      \<and> jobController ac'' = Some jc \<and> app_Steps ac'' = Steps j"
    using jc' assms(2) by (simp add: updateStatus_def app_Steps_def)
  have "app_Steps ?ac' = Steps j"
    using jc' assms(2) by (simp add: app_Steps_def)
  moreover have "showDialog ?ac'"
    and "dialogConfirmAction ?ac' = Some (AddStepAction pos angle radius ?dir)"
    and "dialogCancelAction ?ac' = Some CancelBendAddition"
    by (simp_all add: showConfirmDialog_def)
  ultimately show ?thesis
    using handler jc' confirm cancel by blast
qed

theorem handleAddBendStep_asks_before_adding_witness:
  "jobController initialAppController = Some initialJobController
   \<and> currentJob initialJobController = Some currentJobInstance
   \<and> Sheet currentJobInstance = Some initialSheet
   \<and> (50::real) < OriginalLength initialSheet
   \<and> (1::real) / 1000000 < 1 \<and> 1 < GetMinBendRadius initialSheet
   \<and> handleAddBendStep initialAppController (Some 50) (Some 90) (Some 1) emptyStore
       = Inr (showConfirmDialog ''Radius Warning'' (RadiusWarningMessage 1 3)
                (Some (AddStepAction 50 90 1 BendDirectionUp)) (Some CancelBendAddition)
                initialAppController, emptyStore)
   \<and> app_Steps (showConfirmDialog ''Radius Warning'' (RadiusWarningMessage 1 3)
                (Some (AddStepAction 50 90 1 BendDirectionUp)) (Some CancelBendAddition)
                initialAppController) = []"
  using handleAddBendStep_asks_before_adding [OF initial_controller initial_current initial_sheet,
      of 50 1 90 emptyStore]
  by (simp add: initial_controller initial_current initial_sheet handleAddBendStep_def
      GetMinBendRadius_def range_defs selectedDirection_def app_Steps_def showConfirmDialog_def
      initialAppController_def initialSheet_def SteelMaterial_def Let_def initial_steps)

text \<open>
  With the lower bound 0 in place of one millionth the property fails. On the initial
  state the radius \<open>1 / 1048576\<close> passes the range checks and is below the minimum
  bend radius 3 of the sheet, and the handler appends the step at once, with no dialog.
\<close>

theorem handleAddBendStep_adds_tiny_radius_at_once:
  "jobController initialAppController = Some initialJobController
   \<and> currentJob initialJobController = Some currentJobInstance
   \<and> Sheet currentJobInstance = Some initialSheet
   \<and> (0::real) < 50 \<and> 50 < OriginalLength initialSheet
   \<and> (0::real) \<le> 1 / 1048576 \<and> (1::real) / 1048576 \<le> 500
   \<and> (1::real) \<le> 90 \<and> (90::real) \<le> 179
   \<and> (0::real) < 1 / 1048576 \<and> 1 / 1048576 < GetMinBendRadius initialSheet
   \<and> app_Steps initialAppController = []
   \<and> handleAddBendStep initialAppController (Some 50) (Some 90) (Some (1 / 1048576)) emptyStore
       = Inr (updateStatus NewBendStepAdded False
                (initialAppController\<lparr>jobController :=
                   Some (initialJobController\<lparr>currentJob :=
                     Some (currentJobInstance\<lparr>Steps := [0]\<rparr>)\<rparr>)\<rparr>),
              snd (new_BendStep \<lparr>SequenceOrder = 1, Position = 50, TargetAngle = 90,
                     Radius = 1 / 1048576, Direction = BendDirectionUp\<rparr> emptyStore))
   \<and> app_Steps (updateStatus NewBendStepAdded False
                (initialAppController\<lparr>jobController :=
                   Some (initialJobController\<lparr>currentJob :=
                     Some (currentJobInstance\<lparr>Steps := [0]\<rparr>)\<rparr>)\<rparr>)) = [0]
   \<and> \<not> showDialog (updateStatus NewBendStepAdded False
                (initialAppController\<lparr>jobController :=
                   Some (initialJobController\<lparr>currentJob :=
                     Some (currentJobInstance\<lparr>Steps := [0]\<rparr>)\<rparr>)\<rparr>))"
  by (simp add: handleAddBendStep_def addStepAction_def AddBendStepToCurrentJob_def
      new_BendStep_def GetMinBendRadius_def range_defs selectedDirection_def app_Steps_def
      updateStatus_def initialAppController_def example_defs Let_def)

text \<open>
  The buttons of the dialog: \<^verbatim>\<open>dismissDialog\<close> sets both action fields to nil
  before the click handler tests them, so a click closes the dialog and runs neither
  action.
\<close>

lemma dialogConfirmClicked_runs_no_action:
  "dialogConfirmClicked ac h = Inr (if showDialog ac then dismissDialog ac else ac, h)"
  by (simp add: dialogConfirmClicked_def dismissDialog_def Let_def)

lemma dialogCancelClicked_runs_no_action:
  "dialogCancelClicked ac h = Inr (if showDialog ac then dismissDialog ac else ac, h)"
  by (simp add: dialogCancelClicked_def dismissDialog_def Let_def)

end
